theory Spec2Isabelle
  imports Complex_Main "HOL-Library.Word"
begin

section \<open>Values of the plugin framework and of Go\<close>

text \<open>
  An attribute value of the plugin framework (\<^verbatim>\<open>types.String\<close>, \<^verbatim>\<open>types.Bool\<close>,
  \<^verbatim>\<open>types.Int64\<close>, \<^verbatim>\<open>types.Float64\<close>, \<^verbatim>\<open>types.Map\<close>) is null, unknown or a
  known Go value. \<^verbatim>\<open>types.StringValue v\<close> and its siblings build the known value;
  \<^verbatim>\<open>ValueString()\<close> and its siblings return the Go zero value for null and unknown.
\<close>

datatype 'a tfval = Null | Unknown | Known 'a

text \<open>
  A Go \<^verbatim>\<open>float64\<close>: a finite number (kept as the real it denotes), an infinity or
  NaN. Only comparison and copying are used by the provider.
\<close>

datatype float64 = Finite real | PosInf | NegInf | NaN

type_synonym int64 = "64 word"


definition ValueString :: "string tfval \<Rightarrow> string" where
  "ValueString v = (case v of Known s \<Rightarrow> s | _ \<Rightarrow> [])"

definition ValueBool :: "bool tfval \<Rightarrow> bool" where
  "ValueBool v = (case v of Known b \<Rightarrow> b | _ \<Rightarrow> False)"

definition ValueInt64 :: "int64 tfval \<Rightarrow> int64" where
  "ValueInt64 v = (case v of Known i \<Rightarrow> i | _ \<Rightarrow> 0)"

definition ValueFloat64 :: "float64 tfval \<Rightarrow> float64" where
  "ValueFloat64 v = (case v of Known f \<Rightarrow> f | _ \<Rightarrow> Finite 0)"

section \<open>Diagnostics\<close>

datatype severity = SeverityError | SeverityWarning

record diagnostic =
  Severity :: severity
  Summary :: string
  Detail :: string

text \<open>
  \<^verbatim>\<open>Diagnostics.Append\<close> adds each incoming diagnostic unless an equal one is already
  present; \<^verbatim>\<open>AddError\<close> appends one error; \<^verbatim>\<open>HasError\<close> looks for an error.
\<close>

fun Append :: "diagnostic list \<Rightarrow> diagnostic list \<Rightarrow> diagnostic list" where
  "Append diags [] = diags"
| "Append diags (d # ds) = Append (if d \<in> set diags then diags else diags @ [d]) ds"

definition AddError :: "string \<Rightarrow> string \<Rightarrow> diagnostic list \<Rightarrow> diagnostic list" where
  "AddError summary detail diags =
     Append diags [\<lparr>Severity = SeverityError, Summary = summary, Detail = detail\<rparr>]"

definition HasError :: "diagnostic list \<Rightarrow> bool" where
  "HasError diags = list_ex (\<lambda>d. Severity d = SeverityError) diags"

section \<open>The wire shapes (package model)\<close>

record MovementStepItem =
  MovementStepItem_Angle :: int64
  MovementStepItem_Direction :: string
  MovementStepItem_Distance :: float64

record MovementRequest =
  MovementRequest_Name :: string
  MovementRequest_Persist :: bool
  MovementRequest_Steps :: "MovementStepItem list"

record MovementResponse =
  MovementResponse_Moving :: bool

record HealthzResponse =
  HealthzResponse_Healthy :: bool

record ReadyzResponse =
  ReadyzResponse_Ready :: bool

record MovementLockResponse =
  MovementLockResponse_Locked :: bool

record BatteryResponse =
  BatteryResponse_Unit :: string
  BatteryResponse_Value :: int64

record WifiNetworkItem =
  WifiNetworkItem_Encrypted :: bool
  WifiNetworkItem_Rssi :: float64
  WifiNetworkItem_Ssid :: string

record DeviceResponseIdentifiers =
  DeviceResponseIdentifiers_Long :: string
  DeviceResponseIdentifiers_Short :: string

record DeviceResponseVersions =
  DeviceResponseVersions_Api :: string
  DeviceResponseVersions_App :: string

text \<open>A nil pointer is \<open>None\<close>; the Go map of feature flags is a partial map.\<close>

record DeviceResponse =
  DeviceResponse_Features :: "string \<rightharpoonup> bool"
  DeviceResponse_Identifiers :: "DeviceResponseIdentifiers option"
  DeviceResponse_Name :: string
  DeviceResponse_Uptime :: float64
  DeviceResponse_Versions :: "DeviceResponseVersions option"

section \<open>The transport client (package clients)\<close>

record http_request =
  Method :: string
  URL :: string
  Header :: "(string \<times> string) list"
  ReqBody :: string

record http_response =
  StatusCode :: int
  Body :: string

text \<open>
  \<^verbatim>\<open>HttpClient.Do\<close> is the network and the device behind it: it answers a request with
  a transport error (its text) or a response.
\<close>

type_synonym http_client = "http_request \<Rightarrow> string + http_response"

record ClientConfig =
  Address :: string
  ApiKey :: string

record Client =
  Config :: ClientConfig
  HttpClient :: http_client

definition NewClient :: "http_client \<Rightarrow> ClientConfig \<Rightarrow> string + Client" where
  "NewClient DefaultClient config = Inr \<lparr>Config = config, HttpClient = DefaultClient\<rparr>"

section \<open>The Go standard library, as far as the provider calls it\<close>

text \<open>
  The provider calls \<^verbatim>\<open>http.NewRequestWithContext\<close>, \<^verbatim>\<open>json.Marshal\<close> and
  \<^verbatim>\<open>json.NewDecoder(body).Decode\<close>. They are not code of the repository, so the
  operations take them as a parameter: whether the URL of a request parses, the bytes
  (or the error text) of a marshalled request, and for every response shape the value
  (or the error text) a body decodes to.
\<close>

record golib =
  url_ok :: "string \<Rightarrow> bool"
  json_Marshal :: "MovementRequest \<Rightarrow> string + string"
  Decode_MovementResponse :: "string \<Rightarrow> string + MovementResponse"
  Decode_HealthzResponse :: "string \<Rightarrow> string + HealthzResponse"
  Decode_ReadyzResponse :: "string \<Rightarrow> string + ReadyzResponse"
  Decode_MovementLockResponse :: "string \<Rightarrow> string + MovementLockResponse"
  Decode_BatteryResponse :: "string \<Rightarrow> string + BatteryResponse"
  Decode_WifiNetworkItems :: "string \<Rightarrow> string + WifiNetworkItem list"
  Decode_DeviceResponse :: "string \<Rightarrow> string + DeviceResponse"

text \<open>The provider sets no header on any request it builds.\<close>

definition NewRequestWithContext ::
  "golib \<Rightarrow> string \<Rightarrow> string \<Rightarrow> string \<Rightarrow> string + http_request" where
  "NewRequestWithContext L method url body =
     (if url_ok L url
      then Inr \<lparr>Method = method, URL = url, Header = [], ReqBody = body\<rparr>
      else Inl ''parse error'')"

section \<open>What an operation leaves behind\<close>

text \<open>
  Every lifecycle hook fills a response: the diagnostics, and the state the host will
  track afterwards (\<open>None\<close> after \<^verbatim>\<open>RemoveResource\<close>, \<open>Some d\<close> after
  \<^verbatim>\<open>State.Set(ctx, &d)\<close>). The model also records the requests handed to
  \<^verbatim>\<open>HttpClient.Do\<close>. Each hook takes the response's state on entry as \<open>s0\<close>, and the
  outcome of decoding the host's input (\<^verbatim>\<open>req.Plan.Get\<close>, \<^verbatim>\<open>req.State.Get\<close>,
  \<^verbatim>\<open>req.Config.Get\<close>) as the diagnostics \<open>gd\<close> and the value \<open>data\<close>.

  The hooks read \<^verbatim>\<open>httpReq.URL\<close> for logging before they test the error of
  \<^verbatim>\<open>NewRequestWithContext\<close>, so a request that cannot be built is a nil dereference:
  the hook panics.
\<close>

record 'st response =
  Diagnostics :: "diagnostic list"
  State :: "'st option"
  Sent :: "http_request list"

datatype 'st outcome = Panic | Return "'st response"

definition http_error_detail :: "string \<Rightarrow> string" where
  "http_error_detail err =
     ''An unexpected error occurred while attempting to refresh resource state. '' @
     ''Please retry the operation or report this issue to the provider developers.'' @
     [CHR 0x0A, CHR 0x0A] @ ''HTTP Error: '' @ err"

definition json_error_detail :: "string \<Rightarrow> string" where
  "json_error_detail err =
     ''An unexpected error occurred while parsing the resource read response. '' @
     ''Please report this issue to the provider developers.'' @
     [CHR 0x0A, CHR 0x0A] @ ''JSON Error: '' @ err"

definition marshal_error_detail :: "string \<Rightarrow> string" where
  "marshal_error_detail err =
     ''An unexpected error occurred while marshalling the resource create request. '' @
     ''Please report this issue to the provider developers.'' @
     [CHR 0x0A, CHR 0x0A] @ ''JSON Error: '' @ err"

section \<open>The read-only probes (package provider, data sources)\<close>

text \<open>
  The data models of the six data sources. Every attribute is computed, so the value
  \<^verbatim>\<open>req.Config.Get\<close> decodes holds nulls; \<^verbatim>\<open>State.Set\<close> of a model that matches its
  schema reports nothing.
\<close>

record HealthDataSourceModel =
  HealthDataSourceModel_Healthy :: "bool tfval"

record ReadyDataSourceModel =
  ReadyDataSourceModel_Ready :: "bool tfval"

record MovementLockDataSourceModel =
  MovementLockDataSourceModel_Locked :: "bool tfval"

record BatteryDataSourceModel =
  BatteryDataSourceModel_Value :: "int64 tfval"
  BatteryDataSourceModel_Unit :: "string tfval"

record WifiNetworkModel =
  WifiNetworkModel_Encrypted :: "bool tfval"
  WifiNetworkModel_Rssi :: "float64 tfval"
  WifiNetworkModel_Ssid :: "string tfval"

record WifiNetworksDataSourceModel =
  WifiNetworksDataSourceModel_Networks :: "WifiNetworkModel list"

record DeviceResponseIdentifiersModel =
  DeviceResponseIdentifiersModel_Long :: "string tfval"
  DeviceResponseIdentifiersModel_Short :: "string tfval"

record DeviceResponseVersionsModel =
  DeviceResponseVersionsModel_API :: "string tfval"
  DeviceResponseVersionsModel_APP :: "string tfval"

record DeviceDataSourceModel =
  DeviceDataSourceModel_Name :: "string tfval"
  DeviceDataSourceModel_Uptime :: "float64 tfval"
  DeviceDataSourceModel_Identifiers :: "DeviceResponseIdentifiersModel option"
  DeviceDataSourceModel_Versions :: "DeviceResponseVersionsModel option"
  DeviceDataSourceModel_Features :: "(string \<rightharpoonup> string) tfval"

definition HealthDataSource_Read ::
  "golib \<Rightarrow> Client \<Rightarrow> diagnostic list \<Rightarrow> HealthDataSourceModel \<Rightarrow>
   HealthDataSourceModel option \<Rightarrow> HealthDataSourceModel outcome" where
  "HealthDataSource_Read L c gd data s0 =
    (let diags = Append [] gd in
     if HasError diags then Return \<lparr>Diagnostics = diags, State = s0, Sent = []\<rparr>
     else
      (case NewRequestWithContext L ''GET'' (Address (Config c) @ ''/v1/healthz'') [] of
         Inl err \<Rightarrow> Panic
       | Inr httpReq \<Rightarrow>
          (case HttpClient c httpReq of
             Inl err \<Rightarrow>
               Return \<lparr>Diagnostics =
                         AddError ''Unable to Refresh Resource'' (http_error_detail err) diags,
                       State = s0, Sent = [httpReq]\<rparr>
           | Inr httpResp \<Rightarrow>
               if StatusCode httpResp = 404
               then Return \<lparr>Diagnostics = diags, State = None, Sent = [httpReq]\<rparr>
               else
                (case Decode_HealthzResponse L (Body httpResp) of
                   Inl err \<Rightarrow>
                     Return \<lparr>Diagnostics =
                               AddError ''Unable to Refresh Resource'' (json_error_detail err) diags,
                             State = s0, Sent = [httpReq]\<rparr>
                 | Inr readResp \<Rightarrow>
                     Return \<lparr>Diagnostics = diags,
                             State = Some (data\<lparr>HealthDataSourceModel_Healthy :=
                                                  Known (HealthzResponse_Healthy readResp)\<rparr>),
                             Sent = [httpReq]\<rparr>))))"

definition ReadyDataSource_Read ::
  "golib \<Rightarrow> Client \<Rightarrow> diagnostic list \<Rightarrow> ReadyDataSourceModel \<Rightarrow>
   ReadyDataSourceModel option \<Rightarrow> ReadyDataSourceModel outcome" where
  "ReadyDataSource_Read L c gd data s0 =
    (let diags = Append [] gd in
     if HasError diags then Return \<lparr>Diagnostics = diags, State = s0, Sent = []\<rparr>
     else
      (case NewRequestWithContext L ''GET'' (Address (Config c) @ ''/v1/readyz'') [] of
         Inl err \<Rightarrow> Panic
       | Inr httpReq \<Rightarrow>
          (case HttpClient c httpReq of
             Inl err \<Rightarrow>
               Return \<lparr>Diagnostics =
                         AddError ''Unable to Refresh Resource'' (http_error_detail err) diags,
                       State = s0, Sent = [httpReq]\<rparr>
           | Inr httpResp \<Rightarrow>
               if StatusCode httpResp = 404
               then Return \<lparr>Diagnostics = diags, State = None, Sent = [httpReq]\<rparr>
               else
                (case Decode_ReadyzResponse L (Body httpResp) of
                   Inl err \<Rightarrow>
                     Return \<lparr>Diagnostics =
                               AddError ''Unable to Refresh Resource'' (json_error_detail err) diags,
                             State = s0, Sent = [httpReq]\<rparr>
                 | Inr readResp \<Rightarrow>
                     Return \<lparr>Diagnostics = diags,
                             State = Some (data\<lparr>ReadyDataSourceModel_Ready :=
                                                  Known (ReadyzResponse_Ready readResp)\<rparr>),
                             Sent = [httpReq]\<rparr>))))"

definition MovementLockDataSource_Read ::
  "golib \<Rightarrow> Client \<Rightarrow> diagnostic list \<Rightarrow> MovementLockDataSourceModel \<Rightarrow>
   MovementLockDataSourceModel option \<Rightarrow> MovementLockDataSourceModel outcome" where
  "MovementLockDataSource_Read L c gd data s0 =
    (let diags = Append [] gd in
     if HasError diags then Return \<lparr>Diagnostics = diags, State = s0, Sent = []\<rparr>
     else
      (case NewRequestWithContext L ''GET'' (Address (Config c) @ ''/v1/movement/lock'') [] of
         Inl err \<Rightarrow> Panic
       | Inr httpReq \<Rightarrow>
          (case HttpClient c httpReq of
             Inl err \<Rightarrow>
               Return \<lparr>Diagnostics =
                         AddError ''Unable to Refresh Resource'' (http_error_detail err) diags,
                       State = s0, Sent = [httpReq]\<rparr>
           | Inr httpResp \<Rightarrow>
               if StatusCode httpResp = 404
               then Return \<lparr>Diagnostics = diags, State = None, Sent = [httpReq]\<rparr>
               else
                (case Decode_MovementLockResponse L (Body httpResp) of
                   Inl err \<Rightarrow>
                     Return \<lparr>Diagnostics =
                               AddError ''Unable to Refresh Resource'' (json_error_detail err) diags,
                             State = s0, Sent = [httpReq]\<rparr>
                 | Inr readResp \<Rightarrow>
                     Return \<lparr>Diagnostics = diags,
                             State = Some (data\<lparr>MovementLockDataSourceModel_Locked :=
                                                  Known (MovementLockResponse_Locked readResp)\<rparr>),
                             Sent = [httpReq]\<rparr>))))"

definition BatteryDataSource_Read ::
  "golib \<Rightarrow> Client \<Rightarrow> diagnostic list \<Rightarrow> BatteryDataSourceModel \<Rightarrow>
   BatteryDataSourceModel option \<Rightarrow> BatteryDataSourceModel outcome" where
  "BatteryDataSource_Read L c gd data s0 =
    (let diags = Append [] gd in
     if HasError diags then Return \<lparr>Diagnostics = diags, State = s0, Sent = []\<rparr>
     else
      (case NewRequestWithContext L ''GET'' (Address (Config c) @ ''/v1/device/battery'') [] of
         Inl err \<Rightarrow> Panic
       | Inr httpReq \<Rightarrow>
          (case HttpClient c httpReq of
             Inl err \<Rightarrow>
               Return \<lparr>Diagnostics =
                         AddError ''Unable to Refresh Resource'' (http_error_detail err) diags,
                       State = s0, Sent = [httpReq]\<rparr>
           | Inr httpResp \<Rightarrow>
               if StatusCode httpResp = 404
               then Return \<lparr>Diagnostics = diags, State = None, Sent = [httpReq]\<rparr>
               else
                (case Decode_BatteryResponse L (Body httpResp) of
                   Inl err \<Rightarrow>
                     Return \<lparr>Diagnostics =
                               AddError ''Unable to Refresh Resource'' (json_error_detail err) diags,
                             State = s0, Sent = [httpReq]\<rparr>
                 | Inr readResp \<Rightarrow>
                     Return \<lparr>Diagnostics = diags,
                             State = Some (data\<lparr>BatteryDataSourceModel_Unit :=
                                                  Known (BatteryResponse_Unit readResp),
                                                BatteryDataSourceModel_Value :=
                                                  Known (BatteryResponse_Value readResp)\<rparr>),
                             Sent = [httpReq]\<rparr>))))"

text \<open>
  The Wi-Fi probe allocates \<^verbatim>\<open>networks\<close> with the length of the decoded list and
  assigns \<^verbatim>\<open>networks[i]\<close> for every index in turn.
\<close>

definition expandWifiNetworkModel :: "WifiNetworkItem \<Rightarrow> WifiNetworkModel" where
  "expandWifiNetworkModel item =
     \<lparr>WifiNetworkModel_Encrypted = Known (WifiNetworkItem_Encrypted item),
      WifiNetworkModel_Rssi = Known (WifiNetworkItem_Rssi item),
      WifiNetworkModel_Ssid = Known (WifiNetworkItem_Ssid item)\<rparr>"

definition zero_WifiNetworkModel :: WifiNetworkModel where
  "zero_WifiNetworkModel =
     \<lparr>WifiNetworkModel_Encrypted = Null, WifiNetworkModel_Rssi = Null,
      WifiNetworkModel_Ssid = Null\<rparr>"

fun fill_networks ::
  "nat \<Rightarrow> WifiNetworkItem list \<Rightarrow> WifiNetworkModel list \<Rightarrow> WifiNetworkModel list" where
  "fill_networks i [] networks = networks"
| "fill_networks i (item # items) networks =
     fill_networks (Suc i) items (networks[i := expandWifiNetworkModel item])"

definition WifiNetworksDataSource_Read ::
  "golib \<Rightarrow> Client \<Rightarrow> diagnostic list \<Rightarrow> WifiNetworksDataSourceModel \<Rightarrow>
   WifiNetworksDataSourceModel option \<Rightarrow> WifiNetworksDataSourceModel outcome" where
  "WifiNetworksDataSource_Read L c gd data s0 =
    (let diags = Append [] gd in
     if HasError diags then Return \<lparr>Diagnostics = diags, State = s0, Sent = []\<rparr>
     else
      (case NewRequestWithContext L ''GET'' (Address (Config c) @ ''/v1/device/wifi'') [] of
         Inl err \<Rightarrow> Panic
       | Inr httpReq \<Rightarrow>
          (case HttpClient c httpReq of
             Inl err \<Rightarrow>
               Return \<lparr>Diagnostics =
                         AddError ''Unable to Refresh Resource'' (http_error_detail err) diags,
                       State = s0, Sent = [httpReq]\<rparr>
           | Inr httpResp \<Rightarrow>
               if StatusCode httpResp = 404
               then Return \<lparr>Diagnostics = diags, State = None, Sent = [httpReq]\<rparr>
               else
                (case Decode_WifiNetworkItems L (Body httpResp) of
                   Inl err \<Rightarrow>
                     Return \<lparr>Diagnostics =
                               AddError ''Unable to Refresh Resource'' (json_error_detail err) diags,
                             State = s0, Sent = [httpReq]\<rparr>
                 | Inr readResp \<Rightarrow>
                     (let networks =
                        fill_networks 0 readResp
                          (replicate (length readResp) zero_WifiNetworkModel)
                      in Return \<lparr>Diagnostics = diags,
                                 State = Some (data\<lparr>WifiNetworksDataSourceModel_Networks :=
                                                      networks\<rparr>),
                                 Sent = [httpReq]\<rparr>)))))"

definition expandDeviceResponseIdentifiersModel ::
  "DeviceResponseIdentifiers option \<Rightarrow> DeviceResponseIdentifiersModel option" where
  "expandDeviceResponseIdentifiersModel inp =
     (case inp of
        None \<Rightarrow> None
      | Some i \<Rightarrow>
          Some \<lparr>DeviceResponseIdentifiersModel_Long = Known (DeviceResponseIdentifiers_Long i),
                DeviceResponseIdentifiersModel_Short = Known (DeviceResponseIdentifiers_Short i)\<rparr>)"

definition expandDeviceResponseVersionsModel ::
  "DeviceResponseVersions option \<Rightarrow> DeviceResponseVersionsModel option" where
  "expandDeviceResponseVersionsModel inp =
     (case inp of
        None \<Rightarrow> None
      | Some v \<Rightarrow>
          Some \<lparr>DeviceResponseVersionsModel_API = Known (DeviceResponseVersions_Api v),
                DeviceResponseVersionsModel_APP = Known (DeviceResponseVersions_App v)\<rparr>)"

text \<open>
  The device probe assigns four attributes; the assignment of \<^verbatim>\<open>data.Features\<close> is a
  comment (\<^verbatim>\<open>//TODO: data.Features = something\<close>).
\<close>

definition DeviceDataSource_Read ::
  "golib \<Rightarrow> Client \<Rightarrow> diagnostic list \<Rightarrow> DeviceDataSourceModel \<Rightarrow>
   DeviceDataSourceModel option \<Rightarrow> DeviceDataSourceModel outcome" where
  "DeviceDataSource_Read L c gd data s0 =
    (let diags = Append [] gd in
     if HasError diags then Return \<lparr>Diagnostics = diags, State = s0, Sent = []\<rparr>
     else
      (case NewRequestWithContext L ''GET'' (Address (Config c) @ ''/v1/device/status'') [] of
         Inl err \<Rightarrow> Panic
       | Inr httpReq \<Rightarrow>
          (case HttpClient c httpReq of
             Inl err \<Rightarrow>
               Return \<lparr>Diagnostics =
                         AddError ''Unable to Refresh Resource'' (http_error_detail err) diags,
                       State = s0, Sent = [httpReq]\<rparr>
           | Inr httpResp \<Rightarrow>
               if StatusCode httpResp = 404
               then Return \<lparr>Diagnostics = diags, State = None, Sent = [httpReq]\<rparr>
               else
                (case Decode_DeviceResponse L (Body httpResp) of
                   Inl err \<Rightarrow>
                     Return \<lparr>Diagnostics =
                               AddError ''Unable to Refresh Resource'' (json_error_detail err) diags,
                             State = s0, Sent = [httpReq]\<rparr>
                 | Inr readResp \<Rightarrow>
                     Return \<lparr>Diagnostics = diags,
                             State = Some (data\<lparr>
                               DeviceDataSourceModel_Name := Known (DeviceResponse_Name readResp),
                               DeviceDataSourceModel_Uptime :=
                                 Known (DeviceResponse_Uptime readResp),
                               DeviceDataSourceModel_Identifiers :=
                                 expandDeviceResponseIdentifiersModel
                                   (DeviceResponse_Identifiers readResp),
                               DeviceDataSourceModel_Versions :=
                                 expandDeviceResponseVersionsModel
                                   (DeviceResponse_Versions readResp)\<rparr>),
                             Sent = [httpReq]\<rparr>))))"

section \<open>The movement plan reconciler (package provider, resource)\<close>

record MovementStepsModel =
  MovementStepsModel_Angle :: "int64 tfval"
  MovementStepsModel_Direction :: "string tfval"
  MovementStepsModel_Distance :: "float64 tfval"

record MovementResourceModel =
  MovementResourceModel_Name :: "string tfval"
  MovementResourceModel_Persist :: "bool tfval"
  MovementResourceModel_Steps :: "MovementStepsModel list"

subsection \<open>The validators the schema declares\<close>










subsection \<open>Create\<close>

definition toMovementStepItem :: "MovementStepsModel \<Rightarrow> MovementStepItem" where
  "toMovementStepItem step =
     \<lparr>MovementStepItem_Angle = ValueInt64 (MovementStepsModel_Angle step),
      MovementStepItem_Direction = ValueString (MovementStepsModel_Direction step),
      MovementStepItem_Distance = ValueFloat64 (MovementStepsModel_Distance step)\<rparr>"

definition zero_MovementStepItem :: MovementStepItem where
  "zero_MovementStepItem =
     \<lparr>MovementStepItem_Angle = 0, MovementStepItem_Direction = [],
      MovementStepItem_Distance = Finite 0\<rparr>"

text \<open>
  The loop \<^verbatim>\<open>for i, step := range data.Steps { createReq.Steps[i] = ... }\<close> over the
  slice made with \<^verbatim>\<open>make([]model.MovementStepItem, len(data.Steps))\<close>.
\<close>

fun fill_steps ::
  "nat \<Rightarrow> MovementStepsModel list \<Rightarrow> MovementStepItem list \<Rightarrow> MovementStepItem list" where
  "fill_steps i [] out = out"
| "fill_steps i (step # steps) out =
     fill_steps (Suc i) steps (out[i := toMovementStepItem step])"

definition createReq_of :: "MovementResourceModel \<Rightarrow> MovementRequest" where
  "createReq_of data =
     \<lparr>MovementRequest_Name = ValueString (MovementResourceModel_Name data),
      MovementRequest_Persist = ValueBool (MovementResourceModel_Persist data),
      MovementRequest_Steps =
        fill_steps 0 (MovementResourceModel_Steps data)
          (replicate (length (MovementResourceModel_Steps data)) zero_MovementStepItem)\<rparr>"

text \<open>
  When \<^verbatim>\<open>json.Marshal\<close> fails, Create adds an error and goes on: the request is built
  over the nil byte slice, an empty body.
\<close>

definition MovementResource_Create ::
  "golib \<Rightarrow> Client \<Rightarrow> diagnostic list \<Rightarrow> MovementResourceModel \<Rightarrow>
   MovementResourceModel option \<Rightarrow> MovementResourceModel outcome" where
  "MovementResource_Create L c gd data s0 =
    (let diags = Append [] gd in
     if HasError diags then Return \<lparr>Diagnostics = diags, State = s0, Sent = []\<rparr>
     else
      (let createReq = createReq_of data;
           (httpReqBody, diags1) =
             (case json_Marshal L createReq of
                Inl err \<Rightarrow>
                  ([], AddError ''Unable to Create Resource'' (marshal_error_detail err) diags)
              | Inr bytes \<Rightarrow> (bytes, diags))
       in
        (case NewRequestWithContext L ''POST'' (Address (Config c) @ ''/v1/movement'')
                httpReqBody of
           Inl err \<Rightarrow> Panic
         | Inr httpReq \<Rightarrow>
            (case HttpClient c httpReq of
               Inl err \<Rightarrow>
                 Return \<lparr>Diagnostics =
                           AddError ''Unable to Refresh Resource'' (http_error_detail err) diags1,
                         State = s0, Sent = [httpReq]\<rparr>
             | Inr httpResp \<Rightarrow>
                 if StatusCode httpResp = 404
                 then Return \<lparr>Diagnostics = diags1, State = None, Sent = [httpReq]\<rparr>
                 else
                  (case Decode_MovementResponse L (Body httpResp) of
                     Inl err \<Rightarrow>
                       Return \<lparr>Diagnostics =
                                 AddError ''Unable to Refresh Resource'' (json_error_detail err)
                                   diags1,
                               State = s0, Sent = [httpReq]\<rparr>
                   | Inr readResp \<Rightarrow>
                       Return \<lparr>Diagnostics = diags1, State = Some data,
                               Sent = [httpReq]\<rparr>)))))"

subsection \<open>Read, Update, Delete\<close>

definition MovementResource_Read ::
  "golib \<Rightarrow> Client \<Rightarrow> diagnostic list \<Rightarrow> MovementResourceModel \<Rightarrow>
   MovementResourceModel option \<Rightarrow> MovementResourceModel outcome" where
  "MovementResource_Read L c gd data s0 =
    (let diags = Append [] gd in
     if HasError diags then Return \<lparr>Diagnostics = diags, State = s0, Sent = []\<rparr>
     else
      (case NewRequestWithContext L ''GET'' (Address (Config c) @ ''/v1/movement'') [] of
         Inl err \<Rightarrow> Panic
       | Inr httpReq \<Rightarrow>
          (case HttpClient c httpReq of
             Inl err \<Rightarrow>
               Return \<lparr>Diagnostics =
                         AddError ''Unable to Create Resource'' (http_error_detail err) diags,
                       State = s0, Sent = [httpReq]\<rparr>
           | Inr httpResp \<Rightarrow>
               if StatusCode httpResp = 404
               then Return \<lparr>Diagnostics = diags, State = None, Sent = [httpReq]\<rparr>
               else
                (case Decode_MovementResponse L (Body httpResp) of
                   Inl err \<Rightarrow>
                     Return \<lparr>Diagnostics =
                               AddError ''Unable to Create Resource'' (json_error_detail err) diags,
                             State = s0, Sent = [httpReq]\<rparr>
                 | Inr readResp \<Rightarrow>
                     Return \<lparr>Diagnostics = diags, State = Some data, Sent = [httpReq]\<rparr>))))"

definition MovementResource_Update ::
  "diagnostic list \<Rightarrow> MovementResourceModel \<Rightarrow> MovementResourceModel option \<Rightarrow>
   MovementResourceModel outcome" where
  "MovementResource_Update gd data s0 =
    (let diags = Append [] gd in
     if HasError diags then Return \<lparr>Diagnostics = diags, State = s0, Sent = []\<rparr>
     else Return \<lparr>Diagnostics = diags, State = Some data, Sent = []\<rparr>)"

text \<open>Delete never writes the state itself except on 404.\<close>

definition MovementResource_Delete ::
  "golib \<Rightarrow> Client \<Rightarrow> diagnostic list \<Rightarrow> MovementResourceModel \<Rightarrow>
   MovementResourceModel option \<Rightarrow> MovementResourceModel outcome" where
  "MovementResource_Delete L c gd data s0 =
    (let diags = Append [] gd in
     if HasError diags then Return \<lparr>Diagnostics = diags, State = s0, Sent = []\<rparr>
     else
      (case NewRequestWithContext L ''DELETE'' (Address (Config c) @ ''/v1/movement'') [] of
         Inl err \<Rightarrow> Panic
       | Inr httpReq \<Rightarrow>
          (case HttpClient c httpReq of
             Inl err \<Rightarrow>
               Return \<lparr>Diagnostics =
                         AddError ''Unable to Delete Resource'' (http_error_detail err) diags,
                       State = s0, Sent = [httpReq]\<rparr>
           | Inr httpResp \<Rightarrow>
               if StatusCode httpResp = 404
               then Return \<lparr>Diagnostics = diags, State = None, Sent = [httpReq]\<rparr>
               else
                (case Decode_MovementResponse L (Body httpResp) of
                   Inl err \<Rightarrow>
                     Return \<lparr>Diagnostics =
                               AddError ''Unable to Delete Resource'' (json_error_detail err) diags,
                             State = s0, Sent = [httpReq]\<rparr>
                 | Inr readResp \<Rightarrow>
                     Return \<lparr>Diagnostics = diags, State = s0, Sent = [httpReq]\<rparr>))))"

section \<open>The provider\<close>

record PathfinderProviderModel =
  PathfinderProviderModel_Address :: "string tfval"
  PathfinderProviderModel_ApiKey :: "string tfval"

record ConfigureResponse =
  ConfigureResponse_Diagnostics :: "diagnostic list"
  DataSourceData :: "Client option"
  ResourceData :: "Client option"

text \<open>
  Configure builds the client configuration from the address alone; the \<^verbatim>\<open>ApiKey\<close>
  field of \<^verbatim>\<open>ClientConfig\<close> keeps its zero value. The API key only goes to the log,
  masked.
\<close>

definition PathfinderProvider_Configure ::
  "http_client \<Rightarrow> diagnostic list \<Rightarrow> PathfinderProviderModel \<Rightarrow> ConfigureResponse" where
  "PathfinderProvider_Configure DefaultClient gd providerConfig =
    (let diags = Append [] gd in
     if HasError diags
     then \<lparr>ConfigureResponse_Diagnostics = diags, DataSourceData = None, ResourceData = None\<rparr>
     else
      (let cfg = \<lparr>Address = ValueString (PathfinderProviderModel_Address providerConfig),
                  ApiKey = []\<rparr>
       in case NewClient DefaultClient cfg of
            Inl err \<Rightarrow>
              \<lparr>ConfigureResponse_Diagnostics =
                 AddError ''Client Initialization Error''
                   (''Unable to create Pathfinder API client: '' @ err) diags,
               DataSourceData = None, ResourceData = None\<rparr>
          | Inr client \<Rightarrow>
              \<lparr>ConfigureResponse_Diagnostics = diags, DataSourceData = Some client,
               ResourceData = Some client\<rparr>))"

section \<open>The host's side of the lifecycle\<close>

text \<open>
  One convention of the plugin framework decides what the host tracks after a delete;
  it is outside the repository and is written here as the framework documents it.
  After the Delete hook returns without an error diagnostic, the framework itself calls
  \<^verbatim>\<open>State.RemoveResource\<close>; with an error diagnostic the prior state stays. The
  response of Delete starts as the prior state, which is also what \<^verbatim>\<open>req.State.Get\<close>
  decodes.
\<close>

definition Framework_Delete ::
  "golib \<Rightarrow> Client \<Rightarrow> diagnostic list \<Rightarrow> MovementResourceModel \<Rightarrow>
   MovementResourceModel outcome" where
  "Framework_Delete L c gd data =
    (case MovementResource_Delete L c gd data (Some data) of
       Panic \<Rightarrow> Panic
     | Return r \<Rightarrow>
         Return (if HasError (Diagnostics r) then r else r\<lparr>State := None\<rparr>))"

section \<open>The JSON documents of the movement request\<close>

text \<open>
  The typed envelope codec of the repository is \<^verbatim>\<open>encoding/json\<close> driven by the
  field tags of the shapes in package model. It is modelled on JSON documents: the
  value a JSON text denotes, with the members of an object in the order of the text. A
  number is the value of its literal, kept apart by the form of the literal, since the
  decoder tells the two apart: \<open>JInt\<close> for a literal with neither fraction nor exponent,
  \<open>JReal\<close> for any other. Writing a document as text and reading a text as a document
  (escapes, white space, the shortest decimal of a \<^verbatim>\<open>float64\<close>) stay with the
  library. The strings of a plan are valid UTF-8, so they are written unchanged.
\<close>

datatype json =
    JNull
  | JBool bool
  | JInt int
  | JReal real
  | JString string
  | JArray "json list"
  | JObject "(string \<times> json) list"

subsection \<open>Marshalling model.MovementRequest\<close>

text \<open>
  \<^verbatim>\<open>json.Marshal\<close> writes the fields in the order of the struct under the names of
  their tags (\<^verbatim>\<open>name\<close>, \<^verbatim>\<open>persist\<close>, \<^verbatim>\<open>steps\<close>; \<^verbatim>\<open>angle\<close>, \<^verbatim>\<open>direction\<close>,
  \<^verbatim>\<open>distance\<close>). A \<^verbatim>\<open>float64\<close> is refused when it is NaN or infinite; a whole
  number below \<open>10\<^sup>2\<^sup>1\<close> in magnitude is written without fraction or exponent. The slice
  of steps that Create makes is never nil, so it is written as an array.
\<close>

definition float64_to_json :: "float64 \<Rightarrow> string + json" where
  "float64_to_json f =
     (case f of
        Finite r \<Rightarrow>
          Inr (if r = of_int \<lfloor>r\<rfloor> \<and> \<bar>r\<bar> < 10 ^ 21 then JInt \<lfloor>r\<rfloor> else JReal r)
      | _ \<Rightarrow> Inl ''json: unsupported value'')"

definition MovementStepItem_to_json :: "MovementStepItem \<Rightarrow> string + json" where
  "MovementStepItem_to_json item =
     (case float64_to_json (MovementStepItem_Distance item) of
        Inl err \<Rightarrow> Inl err
      | Inr distance \<Rightarrow>
          Inr (JObject [(''angle'', JInt (sint (MovementStepItem_Angle item))),
                        (''direction'', JString (MovementStepItem_Direction item)),
                        (''distance'', distance)]))"

fun MovementStepItems_to_json :: "MovementStepItem list \<Rightarrow> string + json list" where
  "MovementStepItems_to_json [] = Inr []"
| "MovementStepItems_to_json (item # items) =
     (case MovementStepItem_to_json item of
        Inl err \<Rightarrow> Inl err
      | Inr j \<Rightarrow>
          (case MovementStepItems_to_json items of
             Inl err \<Rightarrow> Inl err
           | Inr js \<Rightarrow> Inr (j # js)))"

definition MovementRequest_to_json :: "MovementRequest \<Rightarrow> string + json" where
  "MovementRequest_to_json req =
     (case MovementStepItems_to_json (MovementRequest_Steps req) of
        Inl err \<Rightarrow> Inl err
      | Inr steps \<Rightarrow>
          Inr (JObject [(''name'', JString (MovementRequest_Name req)),
                        (''persist'', JBool (MovementRequest_Persist req)),
                        (''steps'', JArray steps)]))"

subsection \<open>Unmarshalling into model.MovementRequest\<close>

text \<open>
  \<^verbatim>\<open>json.Unmarshal\<close> into the same shape, as a peer built on package model reads the
  request. A member is matched to a field by its exact name, else by the name under
  case folding (ASCII letters, and the two letters outside ASCII that fold to
  \<open>S\<close> and \<open>K\<close>); a member that matches no field is skipped. A null leaves a field as
  it is (a slice becomes empty); a value of another kind than the field's is an error,
  as is an integer that does not fit 64 bits or a number too large for a
  \<^verbatim>\<open>float64\<close>. A member that occurs again is decoded over the value already there.
  The error text is abbreviated.
\<close>

definition ascii_upper :: "char \<Rightarrow> char" where
  "ascii_upper c =
     (case map_of (zip ''abcdefghijklmnopqrstuvwxyz'' ''ABCDEFGHIJKLMNOPQRSTUVWXYZ'') c of
        Some u \<Rightarrow> u
      | None \<Rightarrow> c)"

fun foldName :: "string \<Rightarrow> string" where
  "foldName (a # b # c # cs) =
     (if a = CHR 0xE2 \<and> b = CHR 0x84 \<and> c = CHR 0xAA then CHR ''K'' # foldName cs
      else if a = CHR 0xC5 \<and> b = CHR 0xBF then CHR ''S'' # foldName (c # cs)
      else ascii_upper a # foldName (b # c # cs))"
| "foldName [a, b] =
     (if a = CHR 0xC5 \<and> b = CHR 0xBF then [CHR ''S''] else [ascii_upper a, ascii_upper b])"
| "foldName [a] = [ascii_upper a]"
| "foldName [] = []"

definition field_of_key :: "string list \<Rightarrow> string \<Rightarrow> string option" where
  "field_of_key names key =
     (if key \<in> set names then Some key
      else find (\<lambda>name. foldName name = foldName key) names)"

definition string_of_json :: "string \<Rightarrow> json \<Rightarrow> string + string" where
  "string_of_json cur j =
     (case j of JNull \<Rightarrow> Inr cur | JString s \<Rightarrow> Inr s
      | _ \<Rightarrow> Inl ''json: cannot unmarshal'')"

definition bool_of_json :: "bool \<Rightarrow> json \<Rightarrow> string + bool" where
  "bool_of_json cur j =
     (case j of JNull \<Rightarrow> Inr cur | JBool b \<Rightarrow> Inr b
      | _ \<Rightarrow> Inl ''json: cannot unmarshal'')"

definition int64_of_json :: "int64 \<Rightarrow> json \<Rightarrow> string + int64" where
  "int64_of_json cur j =
     (case j of
        JNull \<Rightarrow> Inr cur
      | JInt n \<Rightarrow>
          if - (2 ^ 63) \<le> n \<and> n < 2 ^ 63 then Inr (word_of_int n)
          else Inl ''json: cannot unmarshal''
      | _ \<Rightarrow> Inl ''json: cannot unmarshal'')"

definition float64_parses :: "real \<Rightarrow> bool" where
  "float64_parses r = (\<bar>r\<bar> < 2 ^ 1024 - 2 ^ 970)"

definition float64_of_json :: "float64 \<Rightarrow> json \<Rightarrow> string + float64" where
  "float64_of_json cur j =
     (case j of
        JNull \<Rightarrow> Inr cur
      | JInt n \<Rightarrow>
          if float64_parses (of_int n) then Inr (Finite (of_int n))
          else Inl ''json: cannot unmarshal''
      | JReal r \<Rightarrow>
          if float64_parses r then Inr (Finite r) else Inl ''json: cannot unmarshal''
      | _ \<Rightarrow> Inl ''json: cannot unmarshal'')"

fun decode_fields ::
  "('a \<Rightarrow> string \<Rightarrow> json \<Rightarrow> string + 'a) \<Rightarrow> 'a \<Rightarrow> (string \<times> json) list \<Rightarrow> string + 'a" where
  "decode_fields set_field cur [] = Inr cur"
| "decode_fields set_field cur ((key, j) # kvs) =
     (case set_field cur key j of
        Inl err \<Rightarrow> Inl err
      | Inr new \<Rightarrow> decode_fields set_field new kvs)"

definition MovementStepItem_set_field ::
  "MovementStepItem \<Rightarrow> string \<Rightarrow> json \<Rightarrow> string + MovementStepItem" where
  "MovementStepItem_set_field cur key j =
     (case field_of_key [''angle'', ''direction'', ''distance''] key of
        None \<Rightarrow> Inr cur
      | Some name \<Rightarrow>
          if name = ''angle'' then
            (case int64_of_json (MovementStepItem_Angle cur) j of
               Inl err \<Rightarrow> Inl err
             | Inr v \<Rightarrow> Inr (cur\<lparr>MovementStepItem_Angle := v\<rparr>))
          else if name = ''direction'' then
            (case string_of_json (MovementStepItem_Direction cur) j of
               Inl err \<Rightarrow> Inl err
             | Inr v \<Rightarrow> Inr (cur\<lparr>MovementStepItem_Direction := v\<rparr>))
          else
            (case float64_of_json (MovementStepItem_Distance cur) j of
               Inl err \<Rightarrow> Inl err
             | Inr v \<Rightarrow> Inr (cur\<lparr>MovementStepItem_Distance := v\<rparr>)))"

definition MovementStepItem_of_json :: "MovementStepItem \<Rightarrow> json \<Rightarrow> string + MovementStepItem" where
  "MovementStepItem_of_json cur j =
     (case j of
        JNull \<Rightarrow> Inr cur
      | JObject kvs \<Rightarrow> decode_fields MovementStepItem_set_field cur kvs
      | _ \<Rightarrow> Inl ''json: cannot unmarshal'')"

fun MovementStepItems_of_json ::
  "MovementStepItem list \<Rightarrow> json list \<Rightarrow> string + MovementStepItem list" where
  "MovementStepItems_of_json old [] = Inr []"
| "MovementStepItems_of_json old (j # js) =
     (case MovementStepItem_of_json
             (case old of [] \<Rightarrow> zero_MovementStepItem | item # _ \<Rightarrow> item) j of
        Inl err \<Rightarrow> Inl err
      | Inr item \<Rightarrow>
          (case MovementStepItems_of_json (tl old) js of
             Inl err \<Rightarrow> Inl err
           | Inr items \<Rightarrow> Inr (item # items)))"

definition MovementRequest_set_field ::
  "MovementRequest \<Rightarrow> string \<Rightarrow> json \<Rightarrow> string + MovementRequest" where
  "MovementRequest_set_field cur key j =
     (case field_of_key [''name'', ''persist'', ''steps''] key of
        None \<Rightarrow> Inr cur
      | Some name \<Rightarrow>
          if name = ''name'' then
            (case string_of_json (MovementRequest_Name cur) j of
               Inl err \<Rightarrow> Inl err
             | Inr v \<Rightarrow> Inr (cur\<lparr>MovementRequest_Name := v\<rparr>))
          else if name = ''persist'' then
            (case bool_of_json (MovementRequest_Persist cur) j of
               Inl err \<Rightarrow> Inl err
             | Inr v \<Rightarrow> Inr (cur\<lparr>MovementRequest_Persist := v\<rparr>))
          else
            (case j of
               JNull \<Rightarrow> Inr (cur\<lparr>MovementRequest_Steps := []\<rparr>)
             | JArray js \<Rightarrow>
                 (case MovementStepItems_of_json (MovementRequest_Steps cur) js of
                    Inl err \<Rightarrow> Inl err
                  | Inr v \<Rightarrow> Inr (cur\<lparr>MovementRequest_Steps := v\<rparr>))
             | _ \<Rightarrow> Inl ''json: cannot unmarshal''))"

definition zero_MovementRequest :: MovementRequest where
  "zero_MovementRequest =
     \<lparr>MovementRequest_Name = [], MovementRequest_Persist = False, MovementRequest_Steps = []\<rparr>"

definition MovementRequest_of_json :: "json \<Rightarrow> string + MovementRequest" where
  "MovementRequest_of_json j =
     (case j of
        JNull \<Rightarrow> Inr zero_MovementRequest
      | JObject kvs \<Rightarrow> decode_fields MovementRequest_set_field zero_MovementRequest kvs
      | _ \<Rightarrow> Inl ''json: cannot unmarshal'')"

definition json_Unmarshal_MovementRequest ::
  "(string \<Rightarrow> json option) \<Rightarrow> string \<Rightarrow> string + MovementRequest" where
  "json_Unmarshal_MovementRequest denotes body =
     (case denotes body of
        None \<Rightarrow> Inl ''invalid character''
      | Some doc \<Rightarrow> MovementRequest_of_json doc)"

section \<open>Notions used to state the properties\<close>

text \<open>
  The requests an operation handed to the transport (a hook panics before it sends),
  and the request a hook builds for a method, a path and a body.
\<close>

definition requests_sent :: "'st outcome \<Rightarrow> http_request list" where
  "requests_sent out = (case out of Panic \<Rightarrow> [] | Return r \<Rightarrow> Sent r)"

definition request_to :: "Client \<Rightarrow> string \<Rightarrow> string \<Rightarrow> string \<Rightarrow> http_request" where
  "request_to c method path body =
     \<lparr>Method = method, URL = Address (Config c) @ path, Header = [], ReqBody = body\<rparr>"

text \<open>The request Create builds: the marshalled plan, or no body when marshalling failed.\<close>

definition create_request :: "golib \<Rightarrow> Client \<Rightarrow> MovementResourceModel \<Rightarrow> http_request" where
  "create_request L c data =
     request_to c ''POST'' ''/v1/movement''
       (case json_Marshal L (createReq_of data) of Inl err \<Rightarrow> [] | Inr bytes \<Rightarrow> bytes)"

text \<open>
  The status with which the round trip of a body-less request completes, if the
  request can be built and the transport answers.
\<close>

definition round_trip_status :: "golib \<Rightarrow> Client \<Rightarrow> string \<Rightarrow> string \<Rightarrow> int option" where
  "round_trip_status L c method path =
     (case NewRequestWithContext L method (Address (Config c) @ path) [] of
        Inl err \<Rightarrow> None
      | Inr httpReq \<Rightarrow>
          (case HttpClient c httpReq of
             Inl err \<Rightarrow> None
           | Inr httpResp \<Rightarrow> Some (StatusCode httpResp)))"

text \<open>
  The same transport with every status other than 404 replaced by 200: what a hook
  sees if the device answers every request it does not answer with 404 with a plain
  success.
\<close>

definition as_status_200 :: "http_response \<Rightarrow> http_response" where
  "as_status_200 r = (if StatusCode r = 404 then r else r\<lparr>StatusCode := 200\<rparr>)"

definition ignore_status :: "Client \<Rightarrow> Client" where
  "ignore_status c =
     c\<lparr>HttpClient :=
         (\<lambda>q. case HttpClient c q of Inl err \<Rightarrow> Inl err | Inr r \<Rightarrow> Inr (as_status_200 r))\<rparr>"

text \<open>A step the schema accepts, with every attribute known.\<close>

definition valid_step :: "MovementStepsModel \<Rightarrow> bool" where
  "valid_step step =
     ((case MovementStepsModel_Angle step of Known a \<Rightarrow> True | _ \<Rightarrow> False) \<and>
      (MovementStepsModel_Direction step = Known ''forward'' \<or>
       MovementStepsModel_Direction step = Known ''backward'') \<and>
      (case MovementStepsModel_Distance step of
         Known (Finite d) \<Rightarrow> 1 \<le> d \<and> d \<le> 100
       | _ \<Rightarrow> False))"

text \<open>A wire item whose distance is a finite number that a \<^verbatim>\<open>float64\<close> can hold.\<close>

definition wire_item :: "MovementStepItem \<Rightarrow> bool" where
  "wire_item item =
     (case MovementStepItem_Distance item of Finite r \<Rightarrow> float64_parses r | _ \<Rightarrow> False)"

section \<open>A concrete library, device and plans\<close>

text \<open>
  An instance of the library for evaluating the hooks on concrete inputs: every URL
  parses; marshalling fails on a distance that is not finite, as \<^verbatim>\<open>encoding/json\<close>
  does, and otherwise yields bytes whose content no hook inspects; each decoder reads
  the canonical bodies listed and rejects everything else.
\<close>

definition example_Marshal :: "MovementRequest \<Rightarrow> string + string" where
  \<open>example_Marshal req =
     (if list_all (\<lambda>item. case MovementStepItem_Distance item of Finite d \<Rightarrow> True | _ \<Rightarrow> False)
           (MovementRequest_Steps req)
      then Inr ''{"name":"...","persist":true,"steps":[...]}''
      else Inl ''json: unsupported value'')\<close>

definition example_Decode_MovementResponse :: "string \<Rightarrow> string + MovementResponse" where
  \<open>example_Decode_MovementResponse b =
     (if b = ''{"moving":true}'' then Inr \<lparr>MovementResponse_Moving = True\<rparr>
      else if b = ''{"moving":false}'' then Inr \<lparr>MovementResponse_Moving = False\<rparr>
      else Inl ''invalid character'')\<close>

definition example_Decode_HealthzResponse :: "string \<Rightarrow> string + HealthzResponse" where
  \<open>example_Decode_HealthzResponse b =
     (if b = ''{"healthy":true}'' then Inr \<lparr>HealthzResponse_Healthy = True\<rparr>
      else if b = ''{"healthy":false}'' then Inr \<lparr>HealthzResponse_Healthy = False\<rparr>
      else Inl ''invalid character'')\<close>

definition example_Decode_ReadyzResponse :: "string \<Rightarrow> string + ReadyzResponse" where
  \<open>example_Decode_ReadyzResponse b =
     (if b = ''{"ready":true}'' then Inr \<lparr>ReadyzResponse_Ready = True\<rparr>
      else if b = ''{"ready":false}'' then Inr \<lparr>ReadyzResponse_Ready = False\<rparr>
      else Inl ''invalid character'')\<close>

definition example_Decode_MovementLockResponse :: "string \<Rightarrow> string + MovementLockResponse" where
  \<open>example_Decode_MovementLockResponse b =
     (if b = ''{"locked":true}'' then Inr \<lparr>MovementLockResponse_Locked = True\<rparr>
      else if b = ''{"locked":false}'' then Inr \<lparr>MovementLockResponse_Locked = False\<rparr>
      else Inl ''invalid character'')\<close>

definition example_Decode_BatteryResponse :: "string \<Rightarrow> string + BatteryResponse" where
  \<open>example_Decode_BatteryResponse b =
     (if b = ''{"value":87,"unit":"%"}''
      then Inr \<lparr>BatteryResponse_Unit = ''%'', BatteryResponse_Value = 87\<rparr>
      else Inl ''invalid character'')\<close>

definition example_Decode_WifiNetworkItems :: "string \<Rightarrow> string + WifiNetworkItem list" where
  \<open>example_Decode_WifiNetworkItems b =
     (if b = ''[]'' then Inr []
      else if b = ''[{"ssid":"rover","rssi":-40,"encrypted":true}]''
      then Inr [\<lparr>WifiNetworkItem_Encrypted = True, WifiNetworkItem_Rssi = Finite (-40),
                 WifiNetworkItem_Ssid = ''rover''\<rparr>]
      else Inl ''invalid character'')\<close>

definition example_device_body :: string where
  \<open>example_device_body =
     ''{"name":"rover","uptime":12,"identifiers":{"long":"wave-rover-01","short":"wr01"},'' @
     ''"versions":{"api":"v1","app":"1.0.0"},"features":{"camera":true}}''\<close>

definition example_DeviceResponse :: DeviceResponse where
  "example_DeviceResponse =
     \<lparr>DeviceResponse_Features = [''camera'' \<mapsto> True],
      DeviceResponse_Identifiers =
        Some \<lparr>DeviceResponseIdentifiers_Long = ''wave-rover-01'',
              DeviceResponseIdentifiers_Short = ''wr01''\<rparr>,
      DeviceResponse_Name = ''rover'',
      DeviceResponse_Uptime = Finite 12,
      DeviceResponse_Versions =
        Some \<lparr>DeviceResponseVersions_Api = ''v1'', DeviceResponseVersions_App = ''1.0.0''\<rparr>\<rparr>"

definition example_Decode_DeviceResponse :: "string \<Rightarrow> string + DeviceResponse" where
  "example_Decode_DeviceResponse b =
     (if b = example_device_body then Inr example_DeviceResponse
      else Inl ''invalid character'')"

definition example_golib :: golib where
  "example_golib =
     \<lparr>url_ok = (\<lambda>u. True),
      json_Marshal = example_Marshal,
      Decode_MovementResponse = example_Decode_MovementResponse,
      Decode_HealthzResponse = example_Decode_HealthzResponse,
      Decode_ReadyzResponse = example_Decode_ReadyzResponse,
      Decode_MovementLockResponse = example_Decode_MovementLockResponse,
      Decode_BatteryResponse = example_Decode_BatteryResponse,
      Decode_WifiNetworkItems = example_Decode_WifiNetworkItems,
      Decode_DeviceResponse = example_Decode_DeviceResponse\<rparr>"

definition moving_body :: string where
  \<open>moving_body = ''{"moving":true}''\<close>

definition healthy_body :: string where
  \<open>healthy_body = ''{"healthy":true}''\<close>

definition malformed_body :: string where
  \<open>malformed_body = ''<html>Bad Gateway</html>''\<close>

text \<open>A device that answers every request with the given status and body.\<close>

definition example_Client :: "int \<Rightarrow> string \<Rightarrow> Client" where
  "example_Client status body =
     \<lparr>Config = \<lparr>Address = ''http://192.168.4.1:80'', ApiKey = []\<rparr>,
      HttpClient = (\<lambda>q. Inr \<lparr>StatusCode = status, Body = body\<rparr>)\<rparr>"

text \<open>A device that cannot be reached.\<close>

definition unreachable_Client :: Client where
  "unreachable_Client =
     \<lparr>Config = \<lparr>Address = ''http://192.168.4.1:80'', ApiKey = []\<rparr>,
      HttpClient = (\<lambda>q. Inl ''connection refused'')\<rparr>"

text \<open>The plan of the specification's scenario, and the one whose second step turns right.\<close>

definition forward_step :: MovementStepsModel where
  "forward_step =
     \<lparr>MovementStepsModel_Angle = Known 0, MovementStepsModel_Direction = Known ''forward'',
      MovementStepsModel_Distance = Known (Finite 1)\<rparr>"

definition right_step :: MovementStepsModel where
  "right_step =
     \<lparr>MovementStepsModel_Angle = Known 90, MovementStepsModel_Direction = Known ''right'',
      MovementStepsModel_Distance = Known (Finite 1)\<rparr>"

definition example_plan :: MovementResourceModel where
  "example_plan =
     \<lparr>MovementResourceModel_Name = Known ''example'', MovementResourceModel_Persist = Known True,
      MovementResourceModel_Steps = [forward_step]\<rparr>"

definition right_plan :: MovementResourceModel where
  "right_plan =
     \<lparr>MovementResourceModel_Name = Known ''example'', MovementResourceModel_Persist = Known True,
      MovementResourceModel_Steps = [forward_step, right_step]\<rparr>"

text \<open>A plan of three different steps.\<close>

definition backward_step :: MovementStepsModel where
  "backward_step =
     \<lparr>MovementStepsModel_Angle = Known 90, MovementStepsModel_Direction = Known ''backward'',
      MovementStepsModel_Distance = Known (Finite 2.5)\<rparr>"

definition far_step :: MovementStepsModel where
  "far_step =
     \<lparr>MovementStepsModel_Angle = Known (- 45), MovementStepsModel_Direction = Known ''forward'',
      MovementStepsModel_Distance = Known (Finite 100)\<rparr>"

definition three_step_plan :: MovementResourceModel where
  "three_step_plan =
     \<lparr>MovementResourceModel_Name = Known ''example'', MovementResourceModel_Persist = Known True,
      MovementResourceModel_Steps = [forward_step, backward_step, far_step]\<rparr>"

text \<open>
  The bytes \<^verbatim>\<open>json.Marshal\<close> writes for the request of that plan, the document they
  denote, a reader of JSON text that knows this one text, and the library that writes
  it.
\<close>

definition three_step_body :: string where
  \<open>three_step_body =
     ''{"name":"example","persist":true,"steps":['' @
     ''{"angle":0,"direction":"forward","distance":1},'' @
     ''{"angle":90,"direction":"backward","distance":2.5},'' @
     ''{"angle":-45,"direction":"forward","distance":100}]}''\<close>

definition three_step_document :: json where
  "three_step_document =
     JObject
       [(''name'', JString ''example''),
        (''persist'', JBool True),
        (''steps'', JArray
           [JObject [(''angle'', JInt 0), (''direction'', JString ''forward''),
                     (''distance'', JInt 1)],
            JObject [(''angle'', JInt 90), (''direction'', JString ''backward''),
                     (''distance'', JReal 2.5)],
            JObject [(''angle'', JInt (- 45)), (''direction'', JString ''forward''),
                     (''distance'', JInt 100)]])]"

definition example_denotes :: "string \<Rightarrow> json option" where
  "example_denotes body = (if body = three_step_body then Some three_step_document else None)"

definition wire_golib :: golib where
  "wire_golib =
     example_golib\<lparr>json_Marshal :=
       (\<lambda>req. if req = createReq_of three_step_plan then Inr three_step_body
              else example_Marshal req)\<rparr>"

definition null_HealthDataSourceModel :: HealthDataSourceModel where
  "null_HealthDataSourceModel = \<lparr>HealthDataSourceModel_Healthy = Null\<rparr>"

definition null_DeviceDataSourceModel :: DeviceDataSourceModel where
  "null_DeviceDataSourceModel =
     \<lparr>DeviceDataSourceModel_Name = Null, DeviceDataSourceModel_Uptime = Null,
      DeviceDataSourceModel_Identifiers = None, DeviceDataSourceModel_Versions = None,
      DeviceDataSourceModel_Features = Null\<rparr>"

section \<open>Diagnostics: basic facts\<close>

lemma Append_set: "set (Append ds gd) = set ds \<union> set gd"
  by (induction gd arbitrary: ds) auto

lemma HasError_Append: "HasError (Append ds gd) \<longleftrightarrow> HasError ds \<or> HasError gd"
  by (auto simp: HasError_def list_ex_iff Append_set)

lemma HasError_Nil: "\<not> HasError []"
  by (simp add: HasError_def)

lemma HasError_Append_Nil: "HasError (Append [] gd) = HasError gd"
  unfolding HasError_Append by (simp add: HasError_Nil)

lemma HasError_AddError: "HasError (AddError s d ds)"
proof -
  have "\<lparr>Severity = SeverityError, Summary = s, Detail = d\<rparr> \<in> set (AddError s d ds)"
    unfolding AddError_def Append_set by simp
  then show ?thesis
    unfolding HasError_def list_ex_iff by force
qed



lemmas hook_defs =
  HealthDataSource_Read_def ReadyDataSource_Read_def MovementLockDataSource_Read_def
  BatteryDataSource_Read_def WifiNetworksDataSource_Read_def DeviceDataSource_Read_def
  MovementResource_Create_def MovementResource_Read_def MovementResource_Delete_def

lemma example_url_ok: "url_ok example_golib u"
  by (simp add: example_golib_def)

lemma example_decode_moving:
  "Decode_MovementResponse example_golib moving_body = Inr \<lparr>MovementResponse_Moving = True\<rparr>"
  by (simp add: example_golib_def example_Decode_MovementResponse_def moving_body_def)

lemma example_decode_healthy:
  "Decode_HealthzResponse example_golib healthy_body = Inr \<lparr>HealthzResponse_Healthy = True\<rparr>"
  by (simp add: example_golib_def example_Decode_HealthzResponse_def healthy_body_def)

section \<open>A status other than 404 is not inspected\<close>

text \<open>
  C1 (as amended). No hook compares the status code with anything but 404, and no
  diagnostic for an unexpected status exists. For each of the nine hooks that perform a
  round trip, replacing every status other than 404 by 200 leaves the outcome
  (diagnostics, tracked state, requests) unchanged: a response with a status that is
  neither 404 nor a success is handled exactly as a success with the same body.
\<close>

theorem status_other_than_404_is_not_inspected:
  "DeviceDataSource_Read L (ignore_status c) gd device s1 =
     DeviceDataSource_Read L c gd device s1 \<and>
   BatteryDataSource_Read L (ignore_status c) gd battery s2 =
     BatteryDataSource_Read L c gd battery s2 \<and>
   WifiNetworksDataSource_Read L (ignore_status c) gd wifi s3 =
     WifiNetworksDataSource_Read L c gd wifi s3 \<and>
   HealthDataSource_Read L (ignore_status c) gd health s4 =
     HealthDataSource_Read L c gd health s4 \<and>
   ReadyDataSource_Read L (ignore_status c) gd ready s5 =
     ReadyDataSource_Read L c gd ready s5 \<and>
   MovementLockDataSource_Read L (ignore_status c) gd lock s6 =
     MovementLockDataSource_Read L c gd lock s6 \<and>
   MovementResource_Create L (ignore_status c) gd plan s7 =
     MovementResource_Create L c gd plan s7 \<and>
   MovementResource_Read L (ignore_status c) gd plan s7 =
     MovementResource_Read L c gd plan s7 \<and>
   MovementResource_Delete L (ignore_status c) gd plan s7 =
     MovementResource_Delete L c gd plan s7"
  by (intro conjI;
      simp add: hook_defs ignore_status_def as_status_200_def Let_def
        split: sum.splits prod.splits)

text \<open>
  The health probe gives the same outcome for status 500 and for status 200 when the
  body is the same.
\<close>

theorem status_other_than_404_witness:
  "HealthDataSource_Read example_golib (example_Client 500 healthy_body) []
     null_HealthDataSourceModel None =
   HealthDataSource_Read example_golib (example_Client 200 healthy_body) []
     null_HealthDataSourceModel None"
proof -
  have "ignore_status (example_Client 500 healthy_body) = example_Client 200 healthy_body"
    and "ignore_status (example_Client 200 healthy_body) = example_Client 200 healthy_body"
    by (simp_all add: ignore_status_def example_Client_def as_status_200_def)
  then show ?thesis
    using status_other_than_404_is_not_inspected
      [of example_golib "example_Client 500 healthy_body" "[]" _ _ _ _ _ _
          null_HealthDataSourceModel None]
    by simp
qed

text \<open>
  C1 as stated fails: the device answers the health probe with status 500 and a body
  that decodes. The probe reports no diagnostic and commits the decoded value.
\<close>

theorem unexpected_status_counterexample:
  "HealthDataSource_Read example_golib (example_Client 500 healthy_body) []
     null_HealthDataSourceModel None =
   Return \<lparr>Diagnostics = [],
           State = Some \<lparr>HealthDataSourceModel_Healthy = Known True\<rparr>,
           Sent = [request_to (example_Client 500 healthy_body) ''GET'' ''/v1/healthz'' []]\<rparr>"
  by (simp add: HealthDataSource_Read_def HasError_Nil NewRequestWithContext_def
      example_url_ok example_decode_healthy example_Client_def
      null_HealthDataSourceModel_def request_to_def)

section \<open>Validation is the schema's, not Create's\<close>




section \<open>Update\<close>

text \<open>
  C4. Update sends no request, whatever its input; when the plan decodes without an
  error, its only effect is that the tracked state becomes the plan.
\<close>

theorem update_overwrites_without_request:
  "requests_sent (MovementResource_Update gd data s0) = [] \<and>
   (\<not> HasError gd \<longrightarrow>
      MovementResource_Update gd data s0 =
        Return \<lparr>Diagnostics = Append [] gd, State = Some data, Sent = []\<rparr>)"
  by (simp add: MovementResource_Update_def requests_sent_def Let_def HasError_Append_Nil)

theorem update_overwrites_witness:
  "requests_sent (MovementResource_Update [] right_plan (Some example_plan)) = [] \<and>
   MovementResource_Update [] right_plan (Some example_plan) =
     Return \<lparr>Diagnostics = [], State = Some right_plan, Sent = []\<rparr>"
  using update_overwrites_without_request [of "[]" right_plan "Some example_plan"]
  by (simp add: HasError_Nil requests_sent_def)

section \<open>Delete\<close>

text \<open>
  C5 (as amended). When the DELETE request can be sent, the tracked plan is discarded,
  without an error diagnostic, after a 404 and after any other response whose body
  decodes; a transport error and a body that does not decode are reported as an error
  diagnostic and leave the tracked plan in place.
\<close>

theorem delete_discards_or_reports:
  assumes "\<not> HasError gd"
    and "url_ok L (Address (Config c) @ ''/v1/movement'')"
  shows
   "(\<forall>r. HttpClient c (request_to c ''DELETE'' ''/v1/movement'' []) = Inr r \<longrightarrow>
         StatusCode r = 404 \<longrightarrow>
         Framework_Delete L c gd data =
           Return \<lparr>Diagnostics = Append [] gd, State = None,
                   Sent = [request_to c ''DELETE'' ''/v1/movement'' []]\<rparr>) \<and>
    (\<forall>r readResp. HttpClient c (request_to c ''DELETE'' ''/v1/movement'' []) = Inr r \<longrightarrow>
         StatusCode r \<noteq> 404 \<longrightarrow>
         Decode_MovementResponse L (Body r) = Inr readResp \<longrightarrow>
         Framework_Delete L c gd data =
           Return \<lparr>Diagnostics = Append [] gd, State = None,
                   Sent = [request_to c ''DELETE'' ''/v1/movement'' []]\<rparr>) \<and>
    (\<forall>err. HttpClient c (request_to c ''DELETE'' ''/v1/movement'' []) = Inl err \<longrightarrow>
         Framework_Delete L c gd data =
           Return \<lparr>Diagnostics =
                     AddError ''Unable to Delete Resource'' (http_error_detail err)
                       (Append [] gd),
                   State = Some data,
                   Sent = [request_to c ''DELETE'' ''/v1/movement'' []]\<rparr>) \<and>
    (\<forall>r err. HttpClient c (request_to c ''DELETE'' ''/v1/movement'' []) = Inr r \<longrightarrow>
         StatusCode r \<noteq> 404 \<longrightarrow>
         Decode_MovementResponse L (Body r) = Inl err \<longrightarrow>
         Framework_Delete L c gd data =
           Return \<lparr>Diagnostics =
                     AddError ''Unable to Delete Resource'' (json_error_detail err)
                       (Append [] gd),
                   State = Some data,
                   Sent = [request_to c ''DELETE'' ''/v1/movement'' []]\<rparr>) \<and>
    \<not> HasError (Append [] gd) \<and>
    (\<forall>summary detail. HasError (AddError summary detail (Append [] gd)))"
proof -
  have built: "NewRequestWithContext L ''DELETE'' (Address (Config c) @ ''/v1/movement'') [] =
      Inr (request_to c ''DELETE'' ''/v1/movement'' [])"
    using assms(2) by (simp add: NewRequestWithContext_def request_to_def)
  have quiet: "\<not> HasError (Append [] gd)"
    using assms(1) by (simp add: HasError_Append_Nil)
  show ?thesis
    using built quiet
    by (simp add: Framework_Delete_def MovementResource_Delete_def Let_def HasError_AddError)
qed

text \<open>
  A device that confirms the deletion, and one that cannot be reached.
\<close>

theorem delete_discards_or_reports_witness:
  "Framework_Delete example_golib (example_Client 200 moving_body) [] example_plan =
     Return \<lparr>Diagnostics = [], State = None,
             Sent = [request_to (example_Client 200 moving_body) ''DELETE'' ''/v1/movement'' []]\<rparr> \<and>
   Framework_Delete example_golib unreachable_Client [] example_plan =
     Return \<lparr>Diagnostics =
               AddError ''Unable to Delete Resource'' (http_error_detail ''connection refused'') [],
             State = Some example_plan,
             Sent = [request_to unreachable_Client ''DELETE'' ''/v1/movement'' []]\<rparr>"
proof -
  have ok: "HttpClient (example_Client 200 moving_body)
      (request_to (example_Client 200 moving_body) ''DELETE'' ''/v1/movement'' []) =
      Inr \<lparr>StatusCode = 200, Body = moving_body\<rparr>"
    by (simp add: example_Client_def)
  have down: "HttpClient unreachable_Client
      (request_to unreachable_Client ''DELETE'' ''/v1/movement'' []) = Inl ''connection refused''"
    by (simp add: unreachable_Client_def)
  show ?thesis
    using delete_discards_or_reports
        [OF HasError_Nil example_url_ok, of "example_Client 200 moving_body" example_plan]
      delete_discards_or_reports
        [OF HasError_Nil example_url_ok, of unreachable_Client example_plan]
      ok down example_decode_moving
    by simp
qed

text \<open>
  C5 as stated fails: the device answers the DELETE with status 500 and a body that
  decodes. Nothing is reported and the tracked plan is discarded.
\<close>

theorem delete_unexpected_status_counterexample:
  "Framework_Delete example_golib (example_Client 500 moving_body) [] example_plan =
   Return \<lparr>Diagnostics = [], State = None,
           Sent = [request_to (example_Client 500 moving_body) ''DELETE'' ''/v1/movement'' []]\<rparr>"
  by (simp add: Framework_Delete_def MovementResource_Delete_def HasError_Nil
      NewRequestWithContext_def example_url_ok example_decode_moving example_Client_def
      request_to_def)

section \<open>Create commits the declared plan\<close>

text \<open>
  C6. When the POST is answered with a success status and the body decodes as a
  movement status, Create tracks exactly the plan it was given (name, persist flag and
  ordered steps). The tracked model has no attribute for the decoded \<open>moving\<close> flag, and
  changing the flag a body decodes to changes nothing in the outcome.
\<close>

theorem create_commits_declared_values:
  assumes "\<not> HasError gd"
    and "url_ok L (Address (Config c) @ ''/v1/movement'')"
    and "HttpClient c (create_request L c data) = Inr r"
    and "200 \<le> StatusCode r \<and> StatusCode r < 300"
    and "Decode_MovementResponse L (Body r) = Inr readResp"
  shows "(\<exists>diags. MovementResource_Create L c gd data s0 =
            Return \<lparr>Diagnostics = diags, State = Some data,
                    Sent = [create_request L c data]\<rparr>) \<and>
         MovementResource_Create
           (L\<lparr>Decode_MovementResponse :=
                (\<lambda>b. case Decode_MovementResponse L b of
                        Inl err \<Rightarrow> Inl err
                      | Inr v \<Rightarrow> Inr (v\<lparr>MovementResponse_Moving := moving\<rparr>))\<rparr>)
           c gd data s0 =
         MovementResource_Create L c gd data s0"
proof -
  have status: "StatusCode r \<noteq> 404"
    using assms(4) by simp
  have built: "NewRequestWithContext L ''POST'' (Address (Config c) @ ''/v1/movement'') body =
      Inr (request_to c ''POST'' ''/v1/movement'' body)" for body
    using assms(2) by (simp add: NewRequestWithContext_def request_to_def)
  have committed: "\<exists>diags. MovementResource_Create L c gd data s0 =
            Return \<lparr>Diagnostics = diags, State = Some data,
                    Sent = [create_request L c data]\<rparr>"
  proof (cases "json_Marshal L (createReq_of data)")
    case (Inl err)
    then have "create_request L c data = request_to c ''POST'' ''/v1/movement'' []"
      by (simp add: create_request_def)
    with Inl assms(1,3,5) status built show ?thesis
      by (simp add: MovementResource_Create_def Let_def HasError_Append_Nil)
  next
    case (Inr bytes)
    then have "create_request L c data = request_to c ''POST'' ''/v1/movement'' bytes"
      by (simp add: create_request_def)
    with Inr assms(1,3,5) status built show ?thesis
      by (simp add: MovementResource_Create_def Let_def HasError_Append_Nil)
  qed
  have blind: "MovementResource_Create
           (L\<lparr>Decode_MovementResponse :=
                (\<lambda>b. case Decode_MovementResponse L b of
                        Inl err \<Rightarrow> Inl err
                      | Inr v \<Rightarrow> Inr (v\<lparr>MovementResponse_Moving := moving\<rparr>))\<rparr>)
           c gd data s0 =
         MovementResource_Create L c gd data s0"
    by (simp add: MovementResource_Create_def NewRequestWithContext_def Let_def
        split: sum.splits prod.splits)
  from committed blind show ?thesis ..
qed

text \<open>The scenario of the specification: the device answers 201 with \<open>moving\<close> true.\<close>

theorem create_commits_declared_values_witness:
  "\<exists>diags. MovementResource_Create example_golib (example_Client 201 moving_body) []
             example_plan None =
     Return \<lparr>Diagnostics = diags, State = Some example_plan,
             Sent = [create_request example_golib (example_Client 201 moving_body)
                       example_plan]\<rparr>"
proof -
  have answer: "HttpClient (example_Client 201 moving_body)
      (create_request example_golib (example_Client 201 moving_body) example_plan) =
      Inr \<lparr>StatusCode = 201, Body = moving_body\<rparr>"
    by (simp add: example_Client_def)
  have success: "200 \<le> StatusCode \<lparr>StatusCode = 201, Body = moving_body\<rparr> \<and>
      StatusCode \<lparr>StatusCode = 201, Body = moving_body\<rparr> < 300"
    by simp
  have decoded: "Decode_MovementResponse example_golib
      (Body \<lparr>StatusCode = 201, Body = moving_body\<rparr>) = Inr \<lparr>MovementResponse_Moving = True\<rparr>"
    by (simp add: example_decode_moving)
  from create_commits_declared_values
    [OF HasError_Nil example_url_ok answer success decoded]
  show ?thesis by blast
qed

section \<open>A 404 on a read clears the tracked object\<close>

text \<open>
  C7. For each of the six probes and for the movement read: when the GET completes
  with status 404, the hook removes the tracked object and adds no diagnostic, so no
  error is reported.
\<close>

theorem not_found_clears_state:
  assumes "\<not> HasError gd"
  shows
   "(round_trip_status L c ''GET'' ''/v1/device/status'' = Some 404 \<longrightarrow>
       DeviceDataSource_Read L c gd device s1 =
         Return \<lparr>Diagnostics = Append [] gd, State = None,
                 Sent = [request_to c ''GET'' ''/v1/device/status'' []]\<rparr>) \<and>
    (round_trip_status L c ''GET'' ''/v1/device/battery'' = Some 404 \<longrightarrow>
       BatteryDataSource_Read L c gd battery s2 =
         Return \<lparr>Diagnostics = Append [] gd, State = None,
                 Sent = [request_to c ''GET'' ''/v1/device/battery'' []]\<rparr>) \<and>
    (round_trip_status L c ''GET'' ''/v1/device/wifi'' = Some 404 \<longrightarrow>
       WifiNetworksDataSource_Read L c gd wifi s3 =
         Return \<lparr>Diagnostics = Append [] gd, State = None,
                 Sent = [request_to c ''GET'' ''/v1/device/wifi'' []]\<rparr>) \<and>
    (round_trip_status L c ''GET'' ''/v1/healthz'' = Some 404 \<longrightarrow>
       HealthDataSource_Read L c gd health s4 =
         Return \<lparr>Diagnostics = Append [] gd, State = None,
                 Sent = [request_to c ''GET'' ''/v1/healthz'' []]\<rparr>) \<and>
    (round_trip_status L c ''GET'' ''/v1/readyz'' = Some 404 \<longrightarrow>
       ReadyDataSource_Read L c gd ready s5 =
         Return \<lparr>Diagnostics = Append [] gd, State = None,
                 Sent = [request_to c ''GET'' ''/v1/readyz'' []]\<rparr>) \<and>
    (round_trip_status L c ''GET'' ''/v1/movement/lock'' = Some 404 \<longrightarrow>
       MovementLockDataSource_Read L c gd lock s6 =
         Return \<lparr>Diagnostics = Append [] gd, State = None,
                 Sent = [request_to c ''GET'' ''/v1/movement/lock'' []]\<rparr>) \<and>
    (round_trip_status L c ''GET'' ''/v1/movement'' = Some 404 \<longrightarrow>
       MovementResource_Read L c gd plan s7 =
         Return \<lparr>Diagnostics = Append [] gd, State = None,
                 Sent = [request_to c ''GET'' ''/v1/movement'' []]\<rparr>) \<and>
    \<not> HasError (Append [] gd)"
  using assms
  by (intro conjI;
      simp add: hook_defs round_trip_status_def request_to_def NewRequestWithContext_def
        Let_def HasError_Append_Nil split: sum.splits if_splits)

text \<open>The health probe against a device that answers 404, with a tracked value.\<close>

theorem not_found_clears_state_witness:
  "round_trip_status example_golib (example_Client 404 malformed_body) ''GET'' ''/v1/healthz'' =
     Some 404 \<and>
   HealthDataSource_Read example_golib (example_Client 404 malformed_body) []
     null_HealthDataSourceModel (Some \<lparr>HealthDataSourceModel_Healthy = Known True\<rparr>) =
   Return \<lparr>Diagnostics = [], State = None,
           Sent = [request_to (example_Client 404 malformed_body) ''GET'' ''/v1/healthz'' []]\<rparr>"
proof -
  have status: "round_trip_status example_golib (example_Client 404 malformed_body) ''GET''
      ''/v1/healthz'' = Some 404"
    by (simp add: round_trip_status_def NewRequestWithContext_def example_url_ok
        example_Client_def)
  with not_found_clears_state
    [OF HasError_Nil, of example_golib "example_Client 404 malformed_body" _ _ _ _ _ _
       null_HealthDataSourceModel "Some \<lparr>HealthDataSourceModel_Healthy = Known True\<rparr>"]
  show ?thesis by simp
qed

section \<open>The steps reach the wire in order\<close>

lemma int64_roundtrip: "int64_of_json cur (JInt (sint a)) = Inr a"
proof -
  have "- (2 ^ 63) \<le> sint a" "sint a < 2 ^ 63"
    using sint_ge [of a] sint_lt [of a] by simp_all
  then show ?thesis
    by (simp add: int64_of_json_def)
qed

lemma float64_roundtrip:
  assumes "float64_parses r"
  shows "\<exists>j. float64_to_json (Finite r) = Inr j \<and> float64_of_json cur j = Inr (Finite r)"
proof (cases "r = of_int \<lfloor>r\<rfloor> \<and> \<bar>r\<bar> < 10 ^ 21")
  case True
  then have "float64_to_json (Finite r) = Inr (JInt \<lfloor>r\<rfloor>)"
    by (simp add: float64_to_json_def)
  moreover from True assms have "float64_of_json cur (JInt \<lfloor>r\<rfloor>) = Inr (Finite r)"
    by (simp add: float64_of_json_def)
  ultimately show ?thesis by simp
next
  case False
  then have "float64_to_json (Finite r) = Inr (JReal r)"
    by (auto simp: float64_to_json_def)
  moreover from assms have "float64_of_json cur (JReal r) = Inr (Finite r)"
    by (simp add: float64_of_json_def)
  ultimately show ?thesis by simp
qed

lemma item_roundtrip:
  assumes "wire_item item"
  shows "\<exists>j. MovementStepItem_to_json item = Inr j \<and>
             MovementStepItem_of_json cur j = Inr item"
proof -
  from assms obtain r where r: "MovementStepItem_Distance item = Finite r" "float64_parses r"
    by (auto simp: wire_item_def split: float64.splits)
  from float64_roundtrip [OF r(2)] obtain d where
    d: "float64_to_json (Finite r) = Inr d"
       "\<And>cur. float64_of_json cur d = Inr (Finite r)"
    by (metis float64_roundtrip r(2) Inr_inject)
  have "MovementStepItem_of_json cur
          (JObject [(''angle'', JInt (sint (MovementStepItem_Angle item))),
                    (''direction'', JString (MovementStepItem_Direction item)),
                    (''distance'', d)]) = Inr item"
    using r(1)
    by (simp add: MovementStepItem_of_json_def MovementStepItem_set_field_def field_of_key_def
        int64_roundtrip string_of_json_def d(2))
  with r(1) d(1) show ?thesis
    by (simp add: MovementStepItem_to_json_def)
qed

lemma items_roundtrip:
  assumes "list_all wire_item items"
  shows "\<exists>js. MovementStepItems_to_json items = Inr js \<and> length js = length items \<and>
              MovementStepItems_of_json old js = Inr items"
  using assms
proof (induction items arbitrary: old)
  case Nil
  then show ?case by simp
next
  case (Cons item items)
  from Cons.prems have "wire_item item" and rest: "list_all wire_item items"
    by simp_all
  from item_roundtrip [OF \<open>wire_item item\<close>] obtain j where
    j: "MovementStepItem_to_json item = Inr j"
       "MovementStepItem_of_json
          (case old of [] \<Rightarrow> zero_MovementStepItem | x # _ \<Rightarrow> x) j = Inr item"
    by (metis item_roundtrip \<open>wire_item item\<close> Inr_inject)
  from Cons.IH [OF rest, of "tl old"] obtain js where
    js: "MovementStepItems_to_json items = Inr js" "length js = length items"
        "MovementStepItems_of_json (tl old) js = Inr items"
    by blast
  from j js show ?case
    by simp
qed

lemma request_roundtrip:
  assumes "list_all wire_item (MovementRequest_Steps req)"
  shows "\<exists>doc. MovementRequest_to_json req = Inr doc \<and> MovementRequest_of_json doc = Inr req"
proof -
  from items_roundtrip [OF assms, of "[]"] obtain js where
    js: "MovementStepItems_to_json (MovementRequest_Steps req) = Inr js"
        "MovementStepItems_of_json [] js = Inr (MovementRequest_Steps req)"
    by blast
  have "MovementRequest_of_json
          (JObject [(''name'', JString (MovementRequest_Name req)),
                    (''persist'', JBool (MovementRequest_Persist req)),
                    (''steps'', JArray js)]) = Inr req"
    using js(2)
    by (simp add: MovementRequest_of_json_def MovementRequest_set_field_def field_of_key_def
        string_of_json_def bool_of_json_def zero_MovementRequest_def)
  with js(1) show ?thesis
    by (simp add: MovementRequest_to_json_def)
qed

lemma fill_steps_eq:
  "i + length steps \<le> length out \<Longrightarrow>
   fill_steps i steps out =
     take i out @ map toMovementStepItem steps @ drop (i + length steps) out"
proof (induction steps arbitrary: i out)
  case Nil
  then show ?case by simp
next
  case (Cons s steps)
  then show ?case
    by (simp add: take_Suc_conv_app_nth upd_conv_take_nth_drop drop_Suc add.commute)
qed

lemma createReq_Steps:
  "MovementRequest_Steps (createReq_of data) =
     map toMovementStepItem (MovementResourceModel_Steps data)"
  by (simp add: createReq_of_def fill_steps_eq)

lemma valid_step_recovered:
  assumes "valid_step step"
  shows "Known (MovementStepItem_Angle (toMovementStepItem step)) = MovementStepsModel_Angle step"
    and "Known (MovementStepItem_Direction (toMovementStepItem step)) =
           MovementStepsModel_Direction step"
    and "Known (MovementStepItem_Distance (toMovementStepItem step)) =
           MovementStepsModel_Distance step"
  using assms
  by (auto simp: valid_step_def toMovementStepItem_def ValueInt64_def ValueString_def
      ValueFloat64_def split: tfval.splits float64.splits)

lemma valid_step_wire_item:
  assumes "valid_step step"
  shows "wire_item (toMovementStepItem step)"
proof -
  from assms obtain d where d: "MovementStepsModel_Distance step = Known (Finite d)"
      "1 \<le> d" "d \<le> 100"
    by (auto simp: valid_step_def split: tfval.splits float64.splits)
  have "(100::real) < 2 ^ 1024 - 2 ^ 970"
    by simp
  with d(2,3) have "float64_parses d"
    unfolding float64_parses_def by linarith
  with d(1) show ?thesis
    by (simp add: wire_item_def toMovementStepItem_def ValueFloat64_def)
qed

text \<open>
  C8. For a sequence of steps that are valid (every attribute known, direction forward
  or backward, distance in [1.0, 100.0]), of any length and so of every length from 0
  to 50: when \<^verbatim>\<open>json.Marshal\<close> has written the request Create builds as the text of
  its document, unmarshalling the body of the POST gives the request back. It has as
  many steps as the plan, and its step \<open>i\<close> carries the angle, direction and distance
  of step \<open>i\<close> of the plan.
\<close>

theorem steps_translation_preserves_order:
  assumes "list_all valid_step (MovementResourceModel_Steps data)"
    and "json_Marshal L (createReq_of data) = Inr body"
    and "MovementRequest_to_json (createReq_of data) = Inr doc"
    and "denotes body = Some doc"
  shows "\<exists>decoded.
           json_Unmarshal_MovementRequest denotes (ReqBody (create_request L c data)) =
             Inr decoded \<and>
           decoded = createReq_of data \<and>
           length (MovementRequest_Steps decoded) = length (MovementResourceModel_Steps data) \<and>
           (\<forall>i < length (MovementResourceModel_Steps data).
              Known (MovementStepItem_Angle (MovementRequest_Steps decoded ! i)) =
                MovementStepsModel_Angle (MovementResourceModel_Steps data ! i) \<and>
              Known (MovementStepItem_Direction (MovementRequest_Steps decoded ! i)) =
                MovementStepsModel_Direction (MovementResourceModel_Steps data ! i) \<and>
              Known (MovementStepItem_Distance (MovementRequest_Steps decoded ! i)) =
                MovementStepsModel_Distance (MovementResourceModel_Steps data ! i))"
proof -
  let ?steps = "MovementResourceModel_Steps data"
  have valid: "valid_step (?steps ! i)" if "i < length ?steps" for i
    using assms(1) that by (simp add: list_all_length)
  have "list_all wire_item (MovementRequest_Steps (createReq_of data))"
    using assms(1) by (simp add: createReq_Steps list_all_length valid_step_wire_item)
  from request_roundtrip [OF this] assms(3)
  have "MovementRequest_of_json doc = Inr (createReq_of data)"
    by auto
  moreover have "ReqBody (create_request L c data) = body"
    using assms(2) by (simp add: create_request_def request_to_def)
  ultimately
  have decoded: "json_Unmarshal_MovementRequest denotes (ReqBody (create_request L c data)) =
      Inr (createReq_of data)"
    using assms(4) by (simp add: json_Unmarshal_MovementRequest_def)
  have len: "length (MovementRequest_Steps (createReq_of data)) = length ?steps"
    by (simp add: createReq_Steps)
  have nth: "MovementRequest_Steps (createReq_of data) ! i = toMovementStepItem (?steps ! i)"
    if "i < length ?steps" for i
    using that by (simp add: createReq_Steps)
  from decoded len nth valid show ?thesis
    by (simp add: valid_step_recovered)
qed

lemma three_step_valid: "list_all valid_step (MovementResourceModel_Steps three_step_plan)"
  by (simp add: three_step_plan_def forward_step_def backward_step_def far_step_def
      valid_step_def)

lemma three_step_request:
  "createReq_of three_step_plan =
     \<lparr>MovementRequest_Name = ''example'', MovementRequest_Persist = True,
      MovementRequest_Steps =
        [\<lparr>MovementStepItem_Angle = 0, MovementStepItem_Direction = ''forward'',
          MovementStepItem_Distance = Finite 1\<rparr>,
         \<lparr>MovementStepItem_Angle = 90, MovementStepItem_Direction = ''backward'',
          MovementStepItem_Distance = Finite 2.5\<rparr>,
         \<lparr>MovementStepItem_Angle = - 45, MovementStepItem_Direction = ''forward'',
          MovementStepItem_Distance = Finite 100\<rparr>]\<rparr>"
  by (simp add: createReq_of_def three_step_plan_def forward_step_def backward_step_def
      far_step_def toMovementStepItem_def ValueString_def ValueBool_def ValueInt64_def
      ValueFloat64_def zero_MovementStepItem_def numeral_3_eq_3)

lemma three_step_marshal:
  "MovementRequest_to_json (createReq_of three_step_plan) = Inr three_step_document"
  by (simp add: three_step_request MovementRequest_to_json_def MovementStepItem_to_json_def
      float64_to_json_def three_step_document_def)

text \<open>
  The plan of three different steps, posted to the example device: the body is the
  text \<^verbatim>\<open>json.Marshal\<close> writes, and it is read back as the three items in the order
  of the plan.
\<close>

theorem steps_translation_witness:
  "ReqBody (create_request wire_golib (example_Client 201 moving_body) three_step_plan) =
     three_step_body \<and>
   json_Unmarshal_MovementRequest example_denotes
     (ReqBody (create_request wire_golib (example_Client 201 moving_body) three_step_plan)) =
     Inr \<lparr>MovementRequest_Name = ''example'', MovementRequest_Persist = True,
          MovementRequest_Steps =
            [\<lparr>MovementStepItem_Angle = 0, MovementStepItem_Direction = ''forward'',
              MovementStepItem_Distance = Finite 1\<rparr>,
             \<lparr>MovementStepItem_Angle = 90, MovementStepItem_Direction = ''backward'',
              MovementStepItem_Distance = Finite 2.5\<rparr>,
             \<lparr>MovementStepItem_Angle = - 45, MovementStepItem_Direction = ''forward'',
              MovementStepItem_Distance = Finite 100\<rparr>]\<rparr>"
proof -
  have posted: "json_Marshal wire_golib (createReq_of three_step_plan) = Inr three_step_body"
    by (simp add: wire_golib_def)
  then have sent:
    "ReqBody (create_request wire_golib (example_Client 201 moving_body) three_step_plan) =
       three_step_body"
    by (simp add: create_request_def request_to_def)
  have denoted: "example_denotes three_step_body = Some three_step_document"
    by (simp add: example_denotes_def)
  from steps_translation_preserves_order
    [where denotes = example_denotes and c = "example_Client 201 moving_body",
     OF three_step_valid posted three_step_marshal denoted]
  have "json_Unmarshal_MovementRequest example_denotes
      (ReqBody (create_request wire_golib (example_Client 201 moving_body) three_step_plan)) =
      Inr (createReq_of three_step_plan)"
    by simp
  with sent show ?thesis
    by (simp only: three_step_request simp_thms)
qed

section \<open>The device probe leaves the feature flags alone\<close>

text \<open>
  C9. After a successful read of the device status (a success status and a body that
  decodes), the tracked name, uptime, identifiers and versions are those of the decoded
  response, and the tracked \<open>features\<close> attribute is the one the probe was given: the
  feature flags of the response are not used, and changing the flags a body decodes to
  changes nothing in the outcome.
\<close>

theorem device_read_never_sets_features:
  assumes "\<not> HasError gd"
    and "url_ok L (Address (Config c) @ ''/v1/device/status'')"
    and "HttpClient c (request_to c ''GET'' ''/v1/device/status'' []) = Inr r"
    and "200 \<le> StatusCode r \<and> StatusCode r < 300"
    and "Decode_DeviceResponse L (Body r) = Inr readResp"
  shows "DeviceDataSource_Read L c gd data s0 =
           Return \<lparr>Diagnostics = Append [] gd,
                   State = Some
                     \<lparr>DeviceDataSourceModel_Name = Known (DeviceResponse_Name readResp),
                      DeviceDataSourceModel_Uptime = Known (DeviceResponse_Uptime readResp),
                      DeviceDataSourceModel_Identifiers =
                        expandDeviceResponseIdentifiersModel (DeviceResponse_Identifiers readResp),
                      DeviceDataSourceModel_Versions =
                        expandDeviceResponseVersionsModel (DeviceResponse_Versions readResp),
                      DeviceDataSourceModel_Features = DeviceDataSourceModel_Features data\<rparr>,
                   Sent = [request_to c ''GET'' ''/v1/device/status'' []]\<rparr> \<and>
         DeviceDataSource_Read
           (L\<lparr>Decode_DeviceResponse :=
                (\<lambda>b. case Decode_DeviceResponse L b of
                        Inl err \<Rightarrow> Inl err
                      | Inr v \<Rightarrow> Inr (v\<lparr>DeviceResponse_Features := features\<rparr>))\<rparr>)
           c gd data s0 =
         DeviceDataSource_Read L c gd data s0"
proof -
  have "StatusCode r \<noteq> 404"
    using assms(4) by simp
  moreover have "NewRequestWithContext L ''GET'' (Address (Config c) @ ''/v1/device/status'') [] =
      Inr (request_to c ''GET'' ''/v1/device/status'' [])"
    using assms(2) by (simp add: NewRequestWithContext_def request_to_def)
  ultimately have populated: "DeviceDataSource_Read L c gd data s0 =
           Return \<lparr>Diagnostics = Append [] gd,
                   State = Some
                     \<lparr>DeviceDataSourceModel_Name = Known (DeviceResponse_Name readResp),
                      DeviceDataSourceModel_Uptime = Known (DeviceResponse_Uptime readResp),
                      DeviceDataSourceModel_Identifiers =
                        expandDeviceResponseIdentifiersModel (DeviceResponse_Identifiers readResp),
                      DeviceDataSourceModel_Versions =
                        expandDeviceResponseVersionsModel (DeviceResponse_Versions readResp),
                      DeviceDataSourceModel_Features = DeviceDataSourceModel_Features data\<rparr>,
                   Sent = [request_to c ''GET'' ''/v1/device/status'' []]\<rparr>"
    using assms(1,3,5)
    by (cases data) (simp add: DeviceDataSource_Read_def Let_def HasError_Append_Nil)
  have blind: "DeviceDataSource_Read
           (L\<lparr>Decode_DeviceResponse :=
                (\<lambda>b. case Decode_DeviceResponse L b of
                        Inl err \<Rightarrow> Inl err
                      | Inr v \<Rightarrow> Inr (v\<lparr>DeviceResponse_Features := features\<rparr>))\<rparr>)
           c gd data s0 =
         DeviceDataSource_Read L c gd data s0"
    by (simp add: DeviceDataSource_Read_def NewRequestWithContext_def Let_def
        split: sum.splits)
  from populated blind show ?thesis ..
qed

text \<open>A device whose status lists a feature flag; the tracked flags stay null.\<close>

theorem device_read_witness:
  "DeviceDataSource_Read example_golib (example_Client 200 example_device_body) []
     null_DeviceDataSourceModel None =
   Return \<lparr>Diagnostics = [],
           State = Some
             \<lparr>DeviceDataSourceModel_Name = Known ''rover'',
              DeviceDataSourceModel_Uptime = Known (Finite 12),
              DeviceDataSourceModel_Identifiers =
                Some \<lparr>DeviceResponseIdentifiersModel_Long = Known ''wave-rover-01'',
                      DeviceResponseIdentifiersModel_Short = Known ''wr01''\<rparr>,
              DeviceDataSourceModel_Versions =
                Some \<lparr>DeviceResponseVersionsModel_API = Known ''v1'',
                      DeviceResponseVersionsModel_APP = Known ''1.0.0''\<rparr>,
              DeviceDataSourceModel_Features = Null\<rparr>,
           Sent = [request_to (example_Client 200 example_device_body) ''GET''
                     ''/v1/device/status'' []]\<rparr>"
proof -
  have answer: "HttpClient (example_Client 200 example_device_body)
      (request_to (example_Client 200 example_device_body) ''GET'' ''/v1/device/status'' []) =
      Inr \<lparr>StatusCode = 200, Body = example_device_body\<rparr>"
    by (simp add: example_Client_def)
  have success: "200 \<le> StatusCode \<lparr>StatusCode = 200, Body = example_device_body\<rparr> \<and>
      StatusCode \<lparr>StatusCode = 200, Body = example_device_body\<rparr> < 300"
    by simp
  have decoded: "Decode_DeviceResponse example_golib
      (Body \<lparr>StatusCode = 200, Body = example_device_body\<rparr>) = Inr example_DeviceResponse"
    by (simp add: example_golib_def example_Decode_DeviceResponse_def)
  from device_read_never_sets_features
    [OF HasError_Nil example_url_ok answer success decoded,
     of null_DeviceDataSourceModel None]
  show ?thesis
    by (simp add: example_DeviceResponse_def null_DeviceDataSourceModel_def
        expandDeviceResponseIdentifiersModel_def expandDeviceResponseVersionsModel_def)
qed

section \<open>The API key stays out of every request\<close>

text \<open>
  C10. Configure gives the same response, and so the same client, for any two values of
  the configured API key, and the client it builds has an empty \<^verbatim>\<open>ApiKey\<close>. Beyond
  that, no hook reads the \<^verbatim>\<open>ApiKey\<close> field of its client: putting any key there
  changes no outcome, in particular no request. Update takes no client at all.
\<close>

theorem api_key_never_reaches_requests:
  "PathfinderProvider_Configure dc gd (p\<lparr>PathfinderProviderModel_ApiKey := k1\<rparr>) =
     PathfinderProvider_Configure dc gd (p\<lparr>PathfinderProviderModel_ApiKey := k2\<rparr>) \<and>
   (case ResourceData (PathfinderProvider_Configure dc gd p) of
      None \<Rightarrow> True
    | Some client \<Rightarrow> ApiKey (Config client) = []) \<and>
   DeviceDataSource_Read L (c\<lparr>Config := (Config c)\<lparr>ApiKey := k\<rparr>\<rparr>) ds device s1 =
     DeviceDataSource_Read L c ds device s1 \<and>
   BatteryDataSource_Read L (c\<lparr>Config := (Config c)\<lparr>ApiKey := k\<rparr>\<rparr>) ds battery s2 =
     BatteryDataSource_Read L c ds battery s2 \<and>
   WifiNetworksDataSource_Read L (c\<lparr>Config := (Config c)\<lparr>ApiKey := k\<rparr>\<rparr>) ds wifi s3 =
     WifiNetworksDataSource_Read L c ds wifi s3 \<and>
   HealthDataSource_Read L (c\<lparr>Config := (Config c)\<lparr>ApiKey := k\<rparr>\<rparr>) ds health s4 =
     HealthDataSource_Read L c ds health s4 \<and>
   ReadyDataSource_Read L (c\<lparr>Config := (Config c)\<lparr>ApiKey := k\<rparr>\<rparr>) ds ready s5 =
     ReadyDataSource_Read L c ds ready s5 \<and>
   MovementLockDataSource_Read L (c\<lparr>Config := (Config c)\<lparr>ApiKey := k\<rparr>\<rparr>) ds lock s6 =
     MovementLockDataSource_Read L c ds lock s6 \<and>
   MovementResource_Create L (c\<lparr>Config := (Config c)\<lparr>ApiKey := k\<rparr>\<rparr>) ds plan s7 =
     MovementResource_Create L c ds plan s7 \<and>
   MovementResource_Read L (c\<lparr>Config := (Config c)\<lparr>ApiKey := k\<rparr>\<rparr>) ds plan s7 =
     MovementResource_Read L c ds plan s7 \<and>
   MovementResource_Delete L (c\<lparr>Config := (Config c)\<lparr>ApiKey := k\<rparr>\<rparr>) ds plan s7 =
     MovementResource_Delete L c ds plan s7"
  by (intro conjI;
      simp add: PathfinderProvider_Configure_def NewClient_def hook_defs Let_def
        split: sum.splits prod.splits)

text \<open>Two provider configurations that differ in the API key only.\<close>

theorem api_key_witness:
  "PathfinderProvider_Configure (\<lambda>q. Inl ''connection refused'') []
     \<lparr>PathfinderProviderModel_Address = Known ''http://192.168.4.1:80'',
      PathfinderProviderModel_ApiKey = Known ''first-key''\<rparr> =
   PathfinderProvider_Configure (\<lambda>q. Inl ''connection refused'') []
     \<lparr>PathfinderProviderModel_Address = Known ''http://192.168.4.1:80'',
      PathfinderProviderModel_ApiKey = Known ''second-key''\<rparr>"
  using api_key_never_reaches_requests
    [where dc = "\<lambda>q. Inl ''connection refused''" and gd = "[]"
       and p = "\<lparr>PathfinderProviderModel_Address = Known ''http://192.168.4.1:80'',
                 PathfinderProviderModel_ApiKey = Null\<rparr>"
       and ?k1.0 = "Known ''first-key''" and ?k2.0 = "Known ''second-key''"]
  by simp

end
